theory Spec2Isabelle
  imports Main "HOL-Library.Word" "HOL-Library.Monad_Syntax" "HOL-Library.Signed_Division"
begin

unbundle bit_operations_syntax

section \<open>The frame and its memory\<close>

text \<open>
  The program is \<^verbatim>\<open>packet01-parsing/xdp_prog_kern.c\<close>.  A frame is the byte buffer
  \<^verbatim>\<open>[data, data_end)\<close> handed over in \<^verbatim>\<open>struct xdp_md\<close>.  Pointers are addresses
  (natural numbers); the context holds the start address and the bytes of the frame, so
  \<^verbatim>\<open>data_end\<close> is the start plus the number of bytes and \<^verbatim>\<open>data \<le> data_end\<close> holds by
  construction.  A load outside \<^verbatim>\<open>[data, data_end)\<close> has no value: it is \<open>None\<close>, and
  every function that loads propagates it.  So \<open>None\<close> as the result of a parser or of
  the classifier means exactly: a byte outside the frame was dereferenced.
\<close>

type_synonym u8 = "8 word"
type_synonym u16 = "16 word"
type_synonym u64 = "64 word"

record xdp_md =
  data :: nat
  frame :: "u8 list"

definition data_end :: "xdp_md \<Rightarrow> nat" where
  "data_end ctx = data ctx + length (frame ctx)"

definition load_u8 :: "xdp_md \<Rightarrow> nat \<Rightarrow> u8 option" where
  "load_u8 ctx a =
     (if data ctx \<le> a \<and> a < data_end ctx then Some (frame ctx ! (a - data ctx)) else None)"

text \<open>
  A 16-bit field is loaded as the target loads it.  The target is little-endian (bpfel):
  the byte at the lower address is the low byte of the value.
\<close>

definition load_u16 :: "xdp_md \<Rightarrow> nat \<Rightarrow> u16 option" where
  "load_u16 ctx a =
     do { lo \<leftarrow> load_u8 ctx a;
          hi \<leftarrow> load_u8 ctx (a + 1);
          Some (push_bit 8 (ucast hi) OR ucast lo) }"

text \<open>
  Modelled from the spec: \<^verbatim>\<open>bpf_htons\<close> and \<^verbatim>\<open>bpf_ntohs\<close> come from
  \<^verbatim>\<open>bpf/bpf_endian.h\<close>, which is not among the sources.  They convert 16 bits between
  host and network (big-endian) byte order; on the little-endian target both swap the
  two bytes.
\<close>

definition bpf_htons :: "u16 \<Rightarrow> u16" where
  "bpf_htons x = push_bit 8 x OR drop_bit 8 x"

definition bpf_ntohs :: "u16 \<Rightarrow> u16" where
  "bpf_ntohs x = push_bit 8 x OR drop_bit 8 x"

text \<open>
  \<^verbatim>\<open>VLAN_MAX_DEPTH\<close> and \<^verbatim>\<open>struct vlan_hdr\<close> (two 16-bit fields: 4 bytes, the
  encapsulated protocol at offset 2) are defined in the source.
\<close>

definition VLAN_MAX_DEPTH :: nat where "VLAN_MAX_DEPTH = 2"

definition sizeof_vlan_hdr :: nat where "sizeof_vlan_hdr = 4"
definition off_h_vlan_encapsulated_proto :: nat where "off_h_vlan_encapsulated_proto = 2"

text \<open>
  Modelled from the spec: the EtherType constants of \<^verbatim>\<open>linux/if_ether.h\<close> and the sizes
  and field offsets of the kernel's header structs, whose headers are not among the
  sources (Ethernet II 14 bytes with the EtherType at 12; IPv4 fixed part 20 bytes, IHL
  the low nibble of byte 0, protocol at 9; IPv6 40 bytes, next header at 6; ICMPv4 and
  ICMPv6 8 bytes, type at 0, echo sequence at 6).
\<close>

definition ETH_P_IP :: u16 where "ETH_P_IP = 0x0800"
definition ETH_P_IPV6 :: u16 where "ETH_P_IPV6 = 0x86DD"
definition ETH_P_8021Q :: u16 where "ETH_P_8021Q = 0x8100"
definition ETH_P_8021AD :: u16 where "ETH_P_8021AD = 0x88A8"

definition sizeof_ethhdr :: nat where "sizeof_ethhdr = 14"
definition sizeof_ipv6hdr :: nat where "sizeof_ipv6hdr = 40"
definition sizeof_iphdr :: nat where "sizeof_iphdr = 20"
definition sizeof_icmp6hdr :: nat where "sizeof_icmp6hdr = 8"
definition sizeof_icmphdr :: nat where "sizeof_icmphdr = 8"

definition off_h_proto :: nat where "off_h_proto = 12"
definition off_nexthdr :: nat where "off_nexthdr = 6"
definition off_protocol :: nat where "off_protocol = 9"
definition off_icmp6_sequence :: nat where "off_icmp6_sequence = 6"
definition off_echo_sequence :: nat where "off_echo_sequence = 6"

section \<open>The parsers\<close>

text \<open>
  \<^verbatim>\<open>struct hdr_cursor\<close> has the one field \<^verbatim>\<open>pos\<close>.  A parser takes the context, the
  cursor and the current value of the caller's header pointer (\<open>None\<close> while it is
  uninitialised), and returns its C return value (an \<^verbatim>\<open>int\<close>), the cursor and the
  header pointer as it leaves them.
\<close>

record hdr_cursor =
  pos :: nat

type_synonym 'h parsed = "(int \<times> hdr_cursor \<times> 'h) option"

definition proto_is_vlan :: "u16 \<Rightarrow> bool" where
  "proto_is_vlan h_proto =
     (h_proto = bpf_htons ETH_P_8021Q \<or> h_proto = bpf_htons ETH_P_8021AD)"

text \<open>
  The loop of \<^verbatim>\<open>parse_ethhdr\<close>: \<^verbatim>\<open>for (int i = 0; i < VLAN_MAX_DEPTH; i++)\<close> over the
  tags \<^verbatim>\<open>vh[i]\<close>, carrying \<^verbatim>\<open>proto\<close> and the cursor.  Both \<^verbatim>\<open>break\<close>s leave the loop
  before the cursor is moved past \<^verbatim>\<open>vh[i]\<close>.
\<close>

function vlan_loop :: "xdp_md \<Rightarrow> nat \<Rightarrow> nat \<Rightarrow> u16 \<Rightarrow> hdr_cursor \<Rightarrow> (u16 \<times> hdr_cursor) option" where
  "vlan_loop ctx vh i proto nh =
     (if i < VLAN_MAX_DEPTH then
        if vh + i * sizeof_vlan_hdr + sizeof_vlan_hdr > data_end ctx then Some (proto, nh)
        else
          (case load_u16 ctx (vh + i * sizeof_vlan_hdr + off_h_vlan_encapsulated_proto) of
             None \<Rightarrow> None
           | Some proto' \<Rightarrow>
               if \<not> proto_is_vlan proto' then Some (proto', nh)
               else vlan_loop ctx vh (i + 1) proto'
                      (nh\<lparr>pos := vh + i * sizeof_vlan_hdr + sizeof_vlan_hdr\<rparr>))
      else Some (proto, nh))"
  by pat_completeness auto
termination
  by (relation "measure (\<lambda>(ctx, vh, i, proto, nh). VLAN_MAX_DEPTH - i)") auto

definition parse_ethhdr :: "xdp_md \<Rightarrow> hdr_cursor \<Rightarrow> nat option \<Rightarrow> nat option parsed" where
  "parse_ethhdr ctx nh ethhdr =
     (let eth = pos nh in
      if eth + sizeof_ethhdr > data_end ctx then Some (- 1, nh, ethhdr)
      else
        do { let nh1 = nh\<lparr>pos := eth + sizeof_ethhdr\<rparr>;
             let ethhdr1 = Some eth;
             proto \<leftarrow> load_u16 ctx (eth + off_h_proto);
             if proto_is_vlan proto then
               do { let vh = pos nh1;
                    (proto', nh2) \<leftarrow> vlan_loop ctx vh 0 proto nh1;
                    Some (uint proto', nh2, ethhdr1) }
             else Some (uint proto, nh1, ethhdr1) })"

definition parse_ip6hdr :: "xdp_md \<Rightarrow> hdr_cursor \<Rightarrow> nat option \<Rightarrow> nat option parsed" where
  "parse_ip6hdr ctx nh ip6hdr =
     (let ip6h = pos nh in
      if ip6h + sizeof_ipv6hdr > data_end ctx then Some (- 1, nh, ip6hdr)
      else
        do { let nh1 = nh\<lparr>pos := ip6h + sizeof_ipv6hdr\<rparr>;
             let ip6hdr1 = Some ip6h;
             nexthdr \<leftarrow> load_u8 ctx (ip6h + off_nexthdr);
             Some (uint nexthdr, nh1, ip6hdr1) })"

definition parse_iphdr :: "xdp_md \<Rightarrow> hdr_cursor \<Rightarrow> nat option \<Rightarrow> nat option parsed" where
  "parse_iphdr ctx nh iph =
     (let ipv4h = pos nh in
      if ipv4h + sizeof_iphdr > data_end ctx then Some (- 1, nh, iph)
      else
        do { b0 \<leftarrow> load_u8 ctx ipv4h;
             let hdrsize = unat (b0 AND 0x0F) * 4;
             if ipv4h + hdrsize > data_end ctx then Some (- 1, nh, iph)
             else
               do { let nh1 = nh\<lparr>pos := ipv4h + hdrsize\<rparr>;
                    let iph1 = Some ipv4h;
                    protocol \<leftarrow> load_u8 ctx (ipv4h + off_protocol);
                    Some (uint protocol, nh1, iph1) } })"

definition parse_icmp6hdr :: "xdp_md \<Rightarrow> hdr_cursor \<Rightarrow> nat option \<Rightarrow> nat option parsed" where
  "parse_icmp6hdr ctx nh icmp6hdr =
     (let icmp6h = pos nh in
      if icmp6h + sizeof_icmp6hdr > data_end ctx then Some (- 1, nh, icmp6hdr)
      else
        do { let nh1 = nh\<lparr>pos := icmp6h + sizeof_icmp6hdr\<rparr>;
             let icmp6hdr1 = Some icmp6h;
             icmp6_type \<leftarrow> load_u8 ctx icmp6h;
             Some (uint icmp6_type, nh1, icmp6hdr1) })"

definition parse_icmphdr :: "xdp_md \<Rightarrow> hdr_cursor \<Rightarrow> nat option \<Rightarrow> nat option parsed" where
  "parse_icmphdr ctx nh icmphd =
     (let icmph = pos nh in
      if icmph + sizeof_icmphdr > data_end ctx then Some (- 1, nh, icmphd)
      else
        do { let nh1 = nh\<lparr>pos := icmph + sizeof_icmphdr\<rparr>;
             let icmphd1 = Some icmph;
             type \<leftarrow> load_u8 ctx icmph;
             Some (uint type, nh1, icmphd1) })"

section \<open>The classifier\<close>

datatype xdp_action = XDP_ABORTED | XDP_DROP | XDP_PASS | XDP_TX | XDP_REDIRECT

type_synonym xdp_stats_map = "xdp_action \<Rightarrow> u64"

text \<open>
  Modelled from the spec: \<^verbatim>\<open>xdp_stats_record_action\<close> is defined in
  \<^verbatim>\<open>../common/xdp_stats_kern.h\<close>, which is not among the sources.  It increments the
  64-bit counter kept for the action and returns the action.
\<close>

definition xdp_stats_record_action :: "xdp_stats_map \<Rightarrow> xdp_action \<Rightarrow> xdp_action \<times> xdp_stats_map" where
  "xdp_stats_record_action stats action = (action, stats(action := stats action + 1))"

text \<open>
  \<^verbatim>\<open>xdp_parser_func\<close>.  The header pointers are uninitialised locals (\<open>None\<close>) until a
  parser writes them; dereferencing one while it is \<open>None\<close> is a fault like any other
  bad load.  The return values of \<^verbatim>\<open>parse_ip6hdr\<close> and \<^verbatim>\<open>parse_iphdr\<close> are not used.
  \<^verbatim>\<open>seqno\<close> is an \<^verbatim>\<open>int\<close> and C's \<^verbatim>\<open>%\<close> truncates towards zero, which is \<open>smod\<close>.
  Every path, the two \<^verbatim>\<open>goto out\<close> included, ends in \<^verbatim>\<open>xdp_stats_record_action\<close>.
\<close>

definition xdp_parser_func :: "xdp_md \<Rightarrow> xdp_stats_map \<Rightarrow> (xdp_action \<times> xdp_stats_map) option" where
  "xdp_parser_func ctx stats =
     do { let action = XDP_PASS;
          let nh = \<lparr>pos = data ctx\<rparr>;
          (nh_type, nh1, eth) \<leftarrow> parse_ethhdr ctx nh None;
          action' \<leftarrow>
            (if nh_type = uint (bpf_htons ETH_P_IPV6) then
               do { (r6, nh2, ip6h) \<leftarrow> parse_ip6hdr ctx nh1 None;
                    (r, nh3, icmp6h) \<leftarrow> parse_icmp6hdr ctx nh2 None;
                    if r < 0 then Some action
                    else
                      do { h \<leftarrow> icmp6h;
                           w \<leftarrow> load_u16 ctx (h + off_icmp6_sequence);
                           let seqno = uint (bpf_ntohs w);
                           Some (if seqno smod 2 = 1 then XDP_PASS else XDP_DROP) } }
             else if nh_type = uint (bpf_htons ETH_P_IP) then
               do { (r4, nh2, iph) \<leftarrow> parse_iphdr ctx nh1 None;
                    (r, nh3, icmph) \<leftarrow> parse_icmphdr ctx nh2 None;
                    if r < 0 then Some action
                    else
                      do { h \<leftarrow> icmph;
                           w \<leftarrow> load_u16 ctx (h + off_echo_sequence);
                           let seqno = uint (bpf_ntohs w);
                           Some (if seqno smod 2 = 1 then XDP_PASS else XDP_DROP) } }
             else Some action);
          Some (xdp_stats_record_action stats action') }"

section \<open>Notions used by the properties\<close>

text \<open>
  The cursor invariant of the data model: the cursor lies inside the frame, its end
  included.
\<close>

definition cursor_ok :: "xdp_md \<Rightarrow> hdr_cursor \<Rightarrow> bool" where
  "cursor_ok ctx nh = (data ctx \<le> pos nh \<and> pos nh \<le> data_end ctx)"

text \<open>The 16-bit big-endian field at offset \<open>i\<close> of a byte sequence, as a number.\<close>

definition be16 :: "u8 list \<Rightarrow> nat \<Rightarrow> nat" where
  "be16 bs i = 256 * unat (bs ! i) + unat (bs ! (i + 1))"

text \<open>Counters that are all zero, for running the classifier on a concrete frame.\<close>

definition zero_stats :: xdp_stats_map where
  "zero_stats a = 0"

text \<open>
  The frames of the parity rule.  An untagged Ethernet/IPv4/ICMPv4 echo frame: EtherType
  \<^verbatim>\<open>0800\<close>, version 4, IHL at least 5, protocol 1, the whole IPv4 header and the 8-byte
  ICMP header inside the frame, ICMP type 8 (echo request) or 0 (echo reply) with code 0;
  \<open>S\<close> is the sequence field, read big-endian.  The IPv6 frame likewise: EtherType
  \<^verbatim>\<open>86DD\<close>, version 6, next header 58, ICMPv6 type 128 or 129 with code 0.
\<close>

definition eth_ipv4_icmp_echo :: "u8 list \<Rightarrow> nat \<Rightarrow> bool" where
  "eth_ipv4_icmp_echo bs S =
     (34 \<le> length bs \<and> bs ! 12 = 0x08 \<and> bs ! 13 = 0x00 \<and>
      drop_bit 4 (bs ! 14) = 4 \<and> 5 \<le> unat (bs ! 14 AND 0x0F) \<and> bs ! 23 = 1 \<and>
      14 + unat (bs ! 14 AND 0x0F) * 4 + 8 \<le> length bs \<and>
      (bs ! (14 + unat (bs ! 14 AND 0x0F) * 4) = 8 \<or> bs ! (14 + unat (bs ! 14 AND 0x0F) * 4) = 0) \<and>
      bs ! (14 + unat (bs ! 14 AND 0x0F) * 4 + 1) = 0 \<and>
      S = be16 bs (14 + unat (bs ! 14 AND 0x0F) * 4 + 6))"

definition eth_ipv6_icmp6_echo :: "u8 list \<Rightarrow> nat \<Rightarrow> bool" where
  "eth_ipv6_icmp6_echo bs S =
     (62 \<le> length bs \<and> bs ! 12 = 0x86 \<and> bs ! 13 = 0xDD \<and>
      drop_bit 4 (bs ! 14) = 6 \<and> bs ! 20 = 58 \<and>
      (bs ! 54 = 128 \<or> bs ! 54 = 129) \<and> bs ! 55 = 0 \<and>
      S = be16 bs 60)"

text \<open>
  Inserting one VLAN tag: the four bytes TPID and TCI (here 0) go between the source
  address and the EtherType, which so becomes the tag's encapsulated protocol.
\<close>

definition vlan_wrap :: "u8 \<Rightarrow> u8 \<Rightarrow> u8 list \<Rightarrow> u8 list" where
  "vlan_wrap tpid0 tpid1 bs = take 12 bs @ [tpid0, tpid1, 0, 0] @ drop 12 bs"

subsection \<open>Concrete frames\<close>

text \<open>
  Headers with the fields the parsers look at as parameters: broadcast Ethernet, IPv6
  from \<^verbatim>\<open>::1\<close> to \<^verbatim>\<open>::1\<close> with hop limit 64, IPv4 from 127.0.0.1 to itself with DF set
  and TTL 64.
\<close>

definition eth_hdr :: "u8 \<Rightarrow> u8 \<Rightarrow> u8 list" where
  "eth_hdr t0 t1 = [0xff, 0xff, 0xff, 0xff, 0xff, 0xff, 0, 0, 0, 0, 0, 0, t0, t1]"

definition ipv6_hdr :: "u8 \<Rightarrow> u8 \<Rightarrow> u8 list" where
  "ipv6_hdr len nexthdr =
     [0x60, 0, 0, 0, 0, len, nexthdr, 64,
      0, 0, 0, 0, 0, 0, 0, 0, 0, 0, 0, 0, 0, 0, 0, 1,
      0, 0, 0, 0, 0, 0, 0, 0, 0, 0, 0, 0, 0, 0, 0, 1]"

definition ipv4_hdr :: "u8 \<Rightarrow> u8 \<Rightarrow> u8 \<Rightarrow> u8 \<Rightarrow> u8 \<Rightarrow> u8 list" where
  "ipv4_hdr b0 len protocol c0 c1 =
     [b0, 0, 0, len, 0, 0, 0x40, 0, 64, protocol, c0, c1, 127, 0, 0, 1, 127, 0, 0, 1]"

definition tcp_syn :: "u8 list" where
  "tcp_syn = [0xc0, 0x00, 0x00, 0x50, 0x00, 0x00, 0x10, 0x00, 0, 0, 0, 0,
              0x50, 0x02, 0xff, 0xff, 0, 0, 0, 0]"

text \<open>IPv6 echo request, identifier 1, sequence 3.\<close>

definition frame_v6_seq3 :: "u8 list" where
  "frame_v6_seq3 = eth_hdr 0x86 0xDD @ ipv6_hdr 8 58 @ [128, 0, 0x7f, 0xb7, 0, 1, 0, 3]"

text \<open>IPv6 echo request, identifier 2, sequence 4; its ICMPv6 checksum is \<^verbatim>\<open>7fb5\<close>.\<close>

definition frame_v6_seq4 :: "u8 list" where
  "frame_v6_seq4 = eth_hdr 0x86 0xDD @ ipv6_hdr 8 58 @ [128, 0, 0x7f, 0xb5, 0, 2, 0, 4]"

text \<open>IPv4 echo request with IHL 6 (four bytes of no-op options), sequence 2.\<close>

definition frame_v4_ihl6_seq2 :: "u8 list" where
  "frame_v4_ihl6_seq2 =
     eth_hdr 0x08 0x00 @ ipv4_hdr 0x46 32 1 0x39 0xd9 @ [1, 1, 1, 1] @ [8, 0, 0xf7, 0xfc, 0, 1, 0, 2]"

text \<open>IPv4 headers with IHL 4 and IHL 0 in front of an echo request with sequence 1.\<close>

definition frame_v4_ihl4 :: "u8 list" where
  "frame_v4_ihl4 = eth_hdr 0x08 0x00 @ ipv4_hdr 0x44 28 1 0x3d 0xdf @ [8, 0, 0xf7, 0xfd, 0, 1, 0, 1]"

definition frame_v4_ihl0 :: "u8 list" where
  "frame_v4_ihl0 = eth_hdr 0x08 0x00 @ ipv4_hdr 0x40 28 1 0x41 0xdf @ [8, 0, 0xf7, 0xfd, 0, 1, 0, 1]"

text \<open>TCP SYN segments (sequence number \<^verbatim>\<open>00001000\<close>) over IPv4 and over IPv6.\<close>

definition frame_v4_tcp :: "u8 list" where
  "frame_v4_tcp = eth_hdr 0x08 0x00 @ ipv4_hdr 0x45 40 6 0x3c 0xce @ tcp_syn"

definition frame_v6_tcp :: "u8 list" where
  "frame_v6_tcp = eth_hdr 0x86 0xDD @ ipv6_hdr 20 6 @ tcp_syn"

definition frame_v6_udp :: "u8 list" where
  "frame_v6_udp = eth_hdr 0x86 0xDD @ ipv6_hdr 8 17 @ [0xc0, 0x01, 0x00, 0x35, 0, 8, 0x3f, 0xa6]"

text \<open>An ARP request, and a runt of ten bytes.\<close>

definition frame_arp :: "u8 list" where
  "frame_arp = eth_hdr 0x08 0x06 @ [0, 1, 8, 0, 6, 4, 0, 1] @ replicate 20 0"

definition frame_runt :: "u8 list" where
  "frame_runt = replicate 10 0xff"

section \<open>Loads inside the frame, byte order\<close>

declare vlan_loop.simps [simp del]

lemmas hdr_sizes = sizeof_ethhdr_def sizeof_vlan_hdr_def sizeof_ipv6hdr_def sizeof_iphdr_def
  sizeof_icmp6hdr_def sizeof_icmphdr_def off_h_proto_def off_h_vlan_encapsulated_proto_def
  off_nexthdr_def off_protocol_def off_icmp6_sequence_def off_echo_sequence_def

lemma load_u8_in:
  "data ctx \<le> a \<Longrightarrow> a < data_end ctx \<Longrightarrow> load_u8 ctx a = Some (frame ctx ! (a - data ctx))"
  by (simp add: load_u8_def)

lemma load_u16_in:
  "data ctx \<le> a \<Longrightarrow> a + 1 < data_end ctx \<Longrightarrow>
   load_u16 ctx a =
     Some (push_bit 8 (ucast (frame ctx ! (a - data ctx + 1))) OR ucast (frame ctx ! (a - data ctx)))"
  by (simp add: load_u16_def load_u8_in Suc_diff_le)

lemma vlan_loop_ok:
  "data ctx \<le> vh \<Longrightarrow> cursor_ok ctx nh \<Longrightarrow>
   \<exists>p nh'. vlan_loop ctx vh i proto nh = Some (p, nh') \<and> cursor_ok ctx nh'"
proof (induction ctx vh i proto nh rule: vlan_loop.induct)
  case (1 ctx vh i proto nh)
  show ?case
  proof (cases "i < VLAN_MAX_DEPTH \<and> vh + i * sizeof_vlan_hdr + sizeof_vlan_hdr \<le> data_end ctx")
    case False
    then show ?thesis using "1.prems" by (auto simp add: vlan_loop.simps [of ctx vh i])
  next
    case True
    let ?a = "vh + i * sizeof_vlan_hdr + off_h_vlan_encapsulated_proto"
    from True "1.prems" obtain w where w: "load_u16 ctx ?a = Some w"
      by (simp add: load_u16_in hdr_sizes)
    show ?thesis
    proof (cases "proto_is_vlan w")
      case False
      then show ?thesis using True w "1.prems" by (simp add: vlan_loop.simps [of ctx vh i])
    next
      case v: True
      have "cursor_ok ctx (nh\<lparr>pos := vh + i * sizeof_vlan_hdr + sizeof_vlan_hdr\<rparr>)"
        using True "1.prems" by (simp add: cursor_ok_def)
      from "1.IH" [OF _ _ w _ "1.prems"(1) this] True v
      show ?thesis using w by (simp add: vlan_loop.simps [of ctx vh i])
    qed
  qed
qed



lemma smod_2_nonneg: "0 \<le> k \<Longrightarrow> k smod 2 = k mod (2::int)"
  by (simp add: signed_modulo_int_def sgn_if)

lemma bpf_ntohs_load:
  "bpf_ntohs (push_bit 8 (ucast (hi::u8)) OR ucast (lo::u8)) = push_bit 8 (ucast lo) OR ucast hi"
  unfolding bpf_ntohs_def
  by (rule bit_word_eqI) (auto simp add: bit_simps dest: bit_imp_le_length)

lemma or_bytes_add:
  "(push_bit 8 (ucast (a::u8)) OR ucast (b::u8) :: u16) = push_bit 8 (ucast a) + ucast b"
  by (rule disjunctive_add [symmetric]) (auto simp add: bit_simps dest: bit_imp_le_length)

lemma unat_u8_less: "unat (a::u8) < 256"
  using unsigned_less [of a] by simp

lemma unat_or_bytes:
  "unat (push_bit 8 (ucast (a::u8)) OR ucast (b::u8) :: u16) = 256 * unat a + unat b"
proof -
  have a: "unat a < 256" and b: "unat b < 256" by (rule unat_u8_less)+
  have "unat (push_bit 8 (ucast a) + ucast b :: u16) = (256 * unat a + unat b) mod 65536"
  proof -
    have "unat (ucast a :: u16) = unat a" "unat (ucast b :: u16) = unat b"
      using a b by (simp_all add: unsigned_ucast_eq take_bit_nat_eq_self)
    then show ?thesis
      by (simp add: unat_word_ariths push_bit_eq_mult mod_simps mult.commute)
  qed
  also have "\<dots> = 256 * unat a + unat b" using a b by simp
  finally show ?thesis by (simp add: or_bytes_add)
qed

lemma seqno_value:
  "uint (bpf_ntohs (push_bit 8 (ucast (hi::u8)) OR ucast (lo::u8))) = int (256 * unat lo + unat hi)"
  by (simp only: bpf_ntohs_load unat_or_bytes [symmetric] of_nat_unat)

lemma seqno_parity:
  "(uint (bpf_ntohs (push_bit 8 (ucast (hi::u8)) OR ucast (lo::u8))) smod 2 = 1) = odd (unat hi)"
proof -
  have "(int (256 * unat lo + unat hi) mod 2 = 1) = odd (unat hi)"
    by presburger
  then show ?thesis
    by (simp only: seqno_value smod_2_nonneg [OF of_nat_0_le_iff])
qed

lemma even_be16: "even (be16 bs i) = even (unat (bs ! (i + 1)))"
  by (simp add: be16_def)

lemma parse_ip6hdr_eq:
  "data ctx \<le> pos nh \<Longrightarrow>
   parse_ip6hdr ctx nh h =
     (if pos nh + 40 \<le> data_end ctx
      then Some (uint (frame ctx ! (pos nh + 6 - data ctx)), nh\<lparr>pos := pos nh + 40\<rparr>, Some (pos nh))
      else Some (- 1, nh, h))"
  by (simp add: parse_ip6hdr_def Let_def hdr_sizes load_u8_in)

lemma parse_icmp6hdr_eq:
  "data ctx \<le> pos nh \<Longrightarrow>
   parse_icmp6hdr ctx nh h =
     (if pos nh + 8 \<le> data_end ctx
      then Some (uint (frame ctx ! (pos nh - data ctx)), nh\<lparr>pos := pos nh + 8\<rparr>, Some (pos nh))
      else Some (- 1, nh, h))"
  by (simp add: parse_icmp6hdr_def Let_def hdr_sizes load_u8_in)

lemma parse_icmphdr_eq:
  "data ctx \<le> pos nh \<Longrightarrow>
   parse_icmphdr ctx nh h =
     (if pos nh + 8 \<le> data_end ctx
      then Some (uint (frame ctx ! (pos nh - data ctx)), nh\<lparr>pos := pos nh + 8\<rparr>, Some (pos nh))
      else Some (- 1, nh, h))"
  by (simp add: parse_icmphdr_def Let_def hdr_sizes load_u8_in)

lemma parse_iphdr_eq:
  "data ctx \<le> pos nh \<Longrightarrow>
   parse_iphdr ctx nh h =
     (if pos nh + 20 \<le> data_end ctx \<and>
         pos nh + unat (frame ctx ! (pos nh - data ctx) AND 0x0F) * 4 \<le> data_end ctx
      then Some (uint (frame ctx ! (pos nh + 9 - data ctx)),
                 nh\<lparr>pos := pos nh + unat (frame ctx ! (pos nh - data ctx) AND 0x0F) * 4\<rparr>,
                 Some (pos nh))
      else Some (- 1, nh, h))"
  by (simp add: parse_iphdr_def Let_def hdr_sizes load_u8_in)


lemma htons_values:
  "bpf_htons ETH_P_IP = 0x0008" "bpf_htons ETH_P_IPV6 = 0xDD86"
  "bpf_htons ETH_P_8021Q = 0x0081" "bpf_htons ETH_P_8021AD = 0xA888"
  by (simp_all add: bpf_htons_def ETH_P_IP_def ETH_P_IPV6_def ETH_P_8021Q_def ETH_P_8021AD_def)

lemma parse_ethhdr_short:
  "data_end ctx < pos nh + 14 \<Longrightarrow> parse_ethhdr ctx nh h = Some (- 1, nh, h)"
  by (simp add: parse_ethhdr_def Let_def hdr_sizes)

lemma parse_ethhdr_fits:
  assumes "data ctx \<le> pos nh" and "pos nh + 14 \<le> data_end ctx"
  shows "\<exists>p nh'. parse_ethhdr ctx nh h = Some (uint (p::u16), nh', Some (pos nh)) \<and> cursor_ok ctx nh'"
proof -
  let ?nh1 = "nh\<lparr>pos := pos nh + 14\<rparr>"
  from assms obtain w where w: "load_u16 ctx (pos nh + 12) = Some w"
    by (simp add: load_u16_in)
  have ok: "cursor_ok ctx ?nh1" using assms by (simp add: cursor_ok_def)
  show ?thesis
  proof (cases "proto_is_vlan w")
    case False
    then show ?thesis using assms w ok
      by (auto simp add: parse_ethhdr_def Let_def hdr_sizes)
  next
    case True
    from ok have "data ctx \<le> pos nh + 14" by (simp add: cursor_ok_def)
    from vlan_loop_ok [OF this ok, of 0 w] obtain p nh'
      where "vlan_loop ctx (pos nh + 14) 0 w ?nh1 = Some (p, nh')" and "cursor_ok ctx nh'"
      by blast
    then show ?thesis using assms w True
      by (auto simp add: parse_ethhdr_def Let_def hdr_sizes)
  qed
qed

lemma parse_ethhdr_total:
  assumes "cursor_ok ctx nh"
  shows "\<exists>t nh' h'. parse_ethhdr ctx nh h = Some (t, nh', h') \<and> cursor_ok ctx nh'"
proof (cases "pos nh + 14 \<le> data_end ctx")
  case True
  with assms parse_ethhdr_fits [of ctx nh h] show ?thesis
    by (auto simp add: cursor_ok_def)
next
  case False
  then show ?thesis using assms by (simp add: parse_ethhdr_short)
qed

lemma xdp_parser_func_other:
  assumes "parse_ethhdr ctx \<lparr>pos = data ctx\<rparr> None = Some (t, nh1, e)"
    and "t \<noteq> uint (bpf_htons ETH_P_IPV6)" and "t \<noteq> uint (bpf_htons ETH_P_IP)"
  shows "xdp_parser_func ctx stats = Some (xdp_stats_record_action stats XDP_PASS)"
  using assms by (simp add: xdp_parser_func_def)

lemma xdp_parser_func_ipv6:
  assumes eth: "parse_ethhdr ctx \<lparr>pos = data ctx\<rparr> None = Some (uint (bpf_htons ETH_P_IPV6), nh1, e)"
    and lo: "data ctx \<le> pos nh1"
    and ip: "parse_ip6hdr ctx nh1 None = Some (r, nh2, h)"
  shows "xdp_parser_func ctx stats =
           Some (xdp_stats_record_action stats
                  (if pos nh2 + 8 \<le> data_end ctx \<and> even (be16 (frame ctx) (pos nh2 + 6 - data ctx))
                   then XDP_DROP else XDP_PASS))"
proof -
  from ip lo have lo2: "data ctx \<le> pos nh2"
    by (auto simp add: parse_ip6hdr_eq split: if_splits)
  show ?thesis
    using lo2
    by (simp add: xdp_parser_func_def eth ip parse_icmp6hdr_eq load_u16_in hdr_sizes
        seqno_parity even_be16)
qed

lemma xdp_parser_func_ipv4:
  assumes eth: "parse_ethhdr ctx \<lparr>pos = data ctx\<rparr> None = Some (uint (bpf_htons ETH_P_IP), nh1, e)"
    and lo: "data ctx \<le> pos nh1"
    and ip: "parse_iphdr ctx nh1 None = Some (r, nh2, h)"
  shows "xdp_parser_func ctx stats =
           Some (xdp_stats_record_action stats
                  (if pos nh2 + 8 \<le> data_end ctx \<and> even (be16 (frame ctx) (pos nh2 + 6 - data ctx))
                   then XDP_DROP else XDP_PASS))"
proof -
  from ip lo have lo2: "data ctx \<le> pos nh2"
    by (auto simp add: parse_iphdr_eq split: if_splits)
  show ?thesis
    using lo2
    by (simp add: xdp_parser_func_def eth ip parse_icmphdr_eq load_u16_in hdr_sizes
        seqno_parity even_be16 htons_values)
qed

section \<open>Evaluation on concrete frames, further facts about the Ethernet parser\<close>

lemmas frame_defs = eth_hdr_def ipv6_hdr_def ipv4_hdr_def tcp_syn_def frame_v6_seq3_def
  frame_v6_seq4_def frame_v4_ihl6_seq2_def frame_v4_ihl4_def frame_v4_ihl0_def frame_v4_tcp_def
  frame_v6_tcp_def frame_v6_udp_def frame_arp_def frame_runt_def vlan_wrap_def

lemmas run_defs = xdp_parser_func_def parse_ethhdr_def parse_ip6hdr_def parse_iphdr_def
  parse_icmp6hdr_def parse_icmphdr_def load_u16_def load_u8_def data_end_def Let_def hdr_sizes
  proto_is_vlan_def htons_values bpf_ntohs_def signed_modulo_int_def VLAN_MAX_DEPTH_def
  vlan_loop.simps [of _ _ 0] vlan_loop.simps [of _ _ "Suc 0"]
  vlan_loop.simps [of _ _ "Suc (Suc 0)"]

lemma uint_not_minus1: "uint (w::'a::len word) \<noteq> - 1"
  using uint_ge_0 [of w] by linarith

lemma parse_ethhdr_minus1:
  assumes "parse_ethhdr ctx nh h = Some (- 1, nh', h')"
  shows "nh' = nh \<and> h' = h \<and> data_end ctx < pos nh + 14"
proof (cases "data_end ctx < pos nh + 14")
  case True
  with assms show ?thesis by (simp add: parse_ethhdr_short)
next
  case False
  from False assms show ?thesis
    by (auto simp add: parse_ethhdr_def Let_def hdr_sizes uint_not_minus1 split: if_splits bind_splits)
qed

lemma parse_ethhdr_cursor_ok:
  assumes "parse_ethhdr ctx nh h = Some (t, nh', h')" and "cursor_ok ctx nh"
  shows "cursor_ok ctx nh'"
  using parse_ethhdr_total [OF assms(2), of h] assms(1) by auto

lemma parse_ethhdr_untagged:
  assumes "data ctx \<le> pos nh" and "pos nh + 14 \<le> data_end ctx"
    and "load_u16 ctx (pos nh + 12) = Some w" and "\<not> proto_is_vlan w"
  shows "parse_ethhdr ctx nh h = Some (uint w, nh\<lparr>pos := pos nh + 14\<rparr>, Some (pos nh))"
  using assms by (simp add: parse_ethhdr_def Let_def hdr_sizes)

lemma untagged_ipv4_eth:
  assumes "14 \<le> length (frame ctx)" and "frame ctx ! 12 = 0x08" and "frame ctx ! 13 = 0x00"
  shows "parse_ethhdr ctx \<lparr>pos = data ctx\<rparr> None =
           Some (uint (bpf_htons ETH_P_IP), \<lparr>pos = data ctx + 14\<rparr>, Some (data ctx))"
proof -
  have "load_u16 ctx (data ctx + 12) = Some (bpf_htons ETH_P_IP)"
    using assms by (simp add: load_u16_in data_end_def htons_values)
  moreover have "\<not> proto_is_vlan (bpf_htons ETH_P_IP)"
    by (simp add: proto_is_vlan_def htons_values)
  ultimately show ?thesis
    using assms(1) parse_ethhdr_untagged [of ctx "\<lparr>pos = data ctx\<rparr>" "bpf_htons ETH_P_IP" None]
    by (simp add: data_end_def)
qed

lemma untagged_ipv6_eth:
  assumes "14 \<le> length (frame ctx)" and "frame ctx ! 12 = 0x86" and "frame ctx ! 13 = 0xDD"
  shows "parse_ethhdr ctx \<lparr>pos = data ctx\<rparr> None =
           Some (uint (bpf_htons ETH_P_IPV6), \<lparr>pos = data ctx + 14\<rparr>, Some (data ctx))"
proof -
  have "load_u16 ctx (data ctx + 12) = Some (bpf_htons ETH_P_IPV6)"
    using assms by (simp add: load_u16_in data_end_def htons_values)
  moreover have "\<not> proto_is_vlan (bpf_htons ETH_P_IPV6)"
    by (simp add: proto_is_vlan_def htons_values)
  ultimately show ?thesis
    using assms(1) parse_ethhdr_untagged [of ctx "\<lparr>pos = data ctx\<rparr>" "bpf_htons ETH_P_IPV6" None]
    by (simp add: data_end_def)
qed

section \<open>The properties\<close>

subsection \<open>Safety\<close>

text \<open>
  C1.  On every frame the classifier returns an action, \<^verbatim>\<open>XDP_PASS\<close> or \<^verbatim>\<open>XDP_DROP\<close>, after
  recording it.  The result is never \<open>None\<close>: no load falls outside
  \<^verbatim>\<open>[data, data_end)\<close> and no header pointer is dereferenced before its parser has set it.
  The loop over the VLAN tags is a total function, so the classifier terminates.
\<close>

theorem xdp_parser_func_total_in_bounds:
  "\<exists>a. (a = XDP_PASS \<or> a = XDP_DROP) \<and>
       xdp_parser_func ctx stats = Some (xdp_stats_record_action stats a)"
proof -
  have "cursor_ok ctx \<lparr>pos = data ctx\<rparr>" by (simp add: cursor_ok_def data_end_def)
  from parse_ethhdr_total [OF this, of None] obtain t nh1 e
    where eth: "parse_ethhdr ctx \<lparr>pos = data ctx\<rparr> None = Some (t, nh1, e)"
      and ok: "cursor_ok ctx nh1" by blast
  from ok have lo: "data ctx \<le> pos nh1" by (simp add: cursor_ok_def)
  consider (v6) "t = uint (bpf_htons ETH_P_IPV6)" | (v4) "t = uint (bpf_htons ETH_P_IP)"
    | (other) "t \<noteq> uint (bpf_htons ETH_P_IPV6)" "t \<noteq> uint (bpf_htons ETH_P_IP)" by blast
  then show ?thesis
  proof cases
    case v6
    have "\<exists>r nh2 h. parse_ip6hdr ctx nh1 None = Some (r, nh2, h)"
      by (simp add: parse_ip6hdr_eq [OF lo])
    then obtain r nh2 h where "parse_ip6hdr ctx nh1 None = Some (r, nh2, h)" by blast
    from xdp_parser_func_ipv6 [OF eth [unfolded v6] lo this, of stats] show ?thesis
      by (cases "pos nh2 + 8 \<le> data_end ctx \<and> even (be16 (frame ctx) (pos nh2 + 6 - data ctx))")
        auto
  next
    case v4
    have "\<exists>r nh2 h. parse_iphdr ctx nh1 None = Some (r, nh2, h)"
      by (simp add: parse_iphdr_eq [OF lo])
    then obtain r nh2 h where "parse_iphdr ctx nh1 None = Some (r, nh2, h)" by blast
    from xdp_parser_func_ipv4 [OF eth [unfolded v4] lo this, of stats] show ?thesis
      by (cases "pos nh2 + 8 \<le> data_end ctx \<and> even (be16 (frame ctx) (pos nh2 + 6 - data ctx))")
        auto
  next
    case other
    from xdp_parser_func_other [OF eth other, of stats] show ?thesis by auto
  qed
qed

subsection \<open>The parity rule\<close>

text \<open>
  C2.  On a well-formed untagged Ethernet/IPv4/ICMPv4 echo frame and on a well-formed
  untagged Ethernet/IPv6/ICMPv6 echo frame with sequence number \<open>S\<close> (the big-endian value
  of the sequence field) the classifier returns \<^verbatim>\<open>XDP_DROP\<close> if \<open>S\<close> is even and
  \<^verbatim>\<open>XDP_PASS\<close> if \<open>S\<close> is odd, by the same rule for both.
\<close>

theorem echo_parity_rule:
  assumes "eth_ipv4_icmp_echo (frame ctx) S \<or> eth_ipv6_icmp6_echo (frame ctx) S"
  shows "xdp_parser_func ctx stats =
           Some (xdp_stats_record_action stats (if even S then XDP_DROP else XDP_PASS))"
  using assms
proof
  assume wf: "eth_ipv4_icmp_echo (frame ctx) S"
  let ?ihl = "unat (frame ctx ! 14 AND 0x0F)"
  from wf have len: "34 \<le> length (frame ctx)" "14 + ?ihl * 4 + 8 \<le> length (frame ctx)"
    and ty: "frame ctx ! 12 = 0x08" "frame ctx ! 13 = 0x00"
    and S: "S = be16 (frame ctx) (14 + ?ihl * 4 + 6)"
    by (simp_all add: eth_ipv4_icmp_echo_def)
  from len ty have eth: "parse_ethhdr ctx \<lparr>pos = data ctx\<rparr> None =
      Some (uint (bpf_htons ETH_P_IP), \<lparr>pos = data ctx + 14\<rparr>, Some (data ctx))"
    by (simp add: untagged_ipv4_eth)
  have ip: "parse_iphdr ctx \<lparr>pos = data ctx + 14\<rparr> None =
      Some (uint (frame ctx ! 23), \<lparr>pos = data ctx + 14 + ?ihl * 4\<rparr>, Some (data ctx + 14))"
    using len by (simp add: parse_iphdr_eq data_end_def)
  from xdp_parser_func_ipv4 [OF eth _ ip, of stats] len S show ?thesis
    by (simp add: data_end_def)
next
  assume wf: "eth_ipv6_icmp6_echo (frame ctx) S"
  then have len: "62 \<le> length (frame ctx)"
    and ty: "frame ctx ! 12 = 0x86" "frame ctx ! 13 = 0xDD"
    and S: "S = be16 (frame ctx) 60"
    by (simp_all add: eth_ipv6_icmp6_echo_def)
  from len ty have eth: "parse_ethhdr ctx \<lparr>pos = data ctx\<rparr> None =
      Some (uint (bpf_htons ETH_P_IPV6), \<lparr>pos = data ctx + 14\<rparr>, Some (data ctx))"
    by (simp add: untagged_ipv6_eth)
  have ip: "parse_ip6hdr ctx \<lparr>pos = data ctx + 14\<rparr> None =
      Some (uint (frame ctx ! 20), \<lparr>pos = data ctx + 54\<rparr>, Some (data ctx + 14))"
    using len by (simp add: parse_ip6hdr_eq data_end_def)
  from xdp_parser_func_ipv6 [OF eth _ ip, of stats] len S show ?thesis
    by (simp add: data_end_def)
qed

text \<open>
  The rule at an IPv4 echo request with IHL 6 and sequence 2, which is dropped, and at an
  IPv6 echo request with sequence 3, which passes.
\<close>

theorem echo_parity_rule_witness:
  "eth_ipv4_icmp_echo frame_v4_ihl6_seq2 2 \<and>
   xdp_parser_func \<lparr>data = 0, frame = frame_v4_ihl6_seq2\<rparr> zero_stats =
     Some (xdp_stats_record_action zero_stats XDP_DROP) \<and>
   eth_ipv6_icmp6_echo frame_v6_seq3 3 \<and>
   xdp_parser_func \<lparr>data = 0, frame = frame_v6_seq3\<rparr> zero_stats =
     Some (xdp_stats_record_action zero_stats XDP_PASS)"
proof -
  have w4: "eth_ipv4_icmp_echo (frame \<lparr>data = 0, frame = frame_v4_ihl6_seq2\<rparr>) 2"
    by (simp add: eth_ipv4_icmp_echo_def be16_def frame_defs)
  have w6: "eth_ipv6_icmp6_echo (frame \<lparr>data = 0, frame = frame_v6_seq3\<rparr>) 3"
    by (simp add: eth_ipv6_icmp6_echo_def be16_def frame_defs)
  from echo_parity_rule [OF disjI1, OF w4, of zero_stats]
    echo_parity_rule [OF disjI2, OF w6, of zero_stats] w4 w6
  show ?thesis by simp
qed

subsection \<open>VLAN tags\<close>

text \<open>
  C3.  Inserting a VLAN tag is meant to leave the action unchanged, the cursor being moved
  past every tag whose encapsulated protocol was read.  The loop of \<^verbatim>\<open>parse_ethhdr\<close>
  leaves with \<^verbatim>\<open>break\<close> before moving the cursor past the tag that holds the innermost
  EtherType, so the cursor stays one tag short.  The IPv6 echo request with sequence 4 is
  dropped; with one 802.1Q tag inserted it passes, because the IPv6 header is taken to
  start at the tag and the parity is that of the low byte of the ICMPv6 checksum.  The
  cursor after the Ethernet parser is 14 with one tag (not 18) and 18 with two (not 22).
\<close>

theorem vlan_tag_changes_action:
  "xdp_parser_func \<lparr>data = 0, frame = frame_v6_seq4\<rparr> zero_stats =
     Some (xdp_stats_record_action zero_stats XDP_DROP) \<and>
   xdp_parser_func \<lparr>data = 0, frame = vlan_wrap 0x81 0x00 frame_v6_seq4\<rparr> zero_stats =
     Some (xdp_stats_record_action zero_stats XDP_PASS) \<and>
   parse_ethhdr \<lparr>data = 0, frame = vlan_wrap 0x81 0x00 frame_v6_seq4\<rparr> \<lparr>pos = 0\<rparr> None =
     Some (uint (bpf_htons ETH_P_IPV6), \<lparr>pos = 14\<rparr>, Some 0) \<and>
   parse_ethhdr \<lparr>data = 0, frame = vlan_wrap 0x88 0xA8 (vlan_wrap 0x81 0x00 frame_v6_seq4)\<rparr> \<lparr>pos = 0\<rparr> None =
     Some (uint (bpf_htons ETH_P_IPV6), \<lparr>pos = 18\<rparr>, Some 0)"
proof -
  have a: "xdp_parser_func \<lparr>data = 0, frame = frame_v6_seq4\<rparr> zero_stats =
      Some (xdp_stats_record_action zero_stats XDP_DROP)"
    by (simp add: run_defs frame_defs)
  have b: "xdp_parser_func \<lparr>data = 0, frame = vlan_wrap 0x81 0x00 frame_v6_seq4\<rparr> zero_stats =
      Some (xdp_stats_record_action zero_stats XDP_PASS)"
    by (simp add: run_defs frame_defs)
  have c: "parse_ethhdr \<lparr>data = 0, frame = vlan_wrap 0x81 0x00 frame_v6_seq4\<rparr> \<lparr>pos = 0\<rparr> None =
      Some (uint (bpf_htons ETH_P_IPV6), \<lparr>pos = 14\<rparr>, Some 0)"
    by (simp add: run_defs frame_defs)
  have d: "parse_ethhdr \<lparr>data = 0, frame = vlan_wrap 0x88 0xA8 (vlan_wrap 0x81 0x00 frame_v6_seq4)\<rparr>
      \<lparr>pos = 0\<rparr> None = Some (uint (bpf_htons ETH_P_IPV6), \<lparr>pos = 18\<rparr>, Some 0)"
    by (simp add: run_defs frame_defs)
  from a b c d show ?thesis by blast
qed

subsection \<open>Truncation\<close>

text \<open>
  C4.  A truncated frame is meant to pass.  The classifier does not look at the result of
  \<^verbatim>\<open>parse_ip6hdr\<close> and \<^verbatim>\<open>parse_iphdr\<close>: when the IP header does not fit, the cursor
  stays at its start and the ICMP parser is run there.  The IPv6 echo request with
  sequence 3 passes; cut to 49 bytes (35 after the Ethernet header) \<^verbatim>\<open>parse_ip6hdr\<close>
  returns \<open>-1\<close> and the frame is dropped, the parity being that of the hop limit 64.
\<close>

theorem truncation_produces_drop:
  "xdp_parser_func \<lparr>data = 0, frame = frame_v6_seq3\<rparr> zero_stats =
     Some (xdp_stats_record_action zero_stats XDP_PASS) \<and>
   length (take 49 frame_v6_seq3) = 49 \<and>
   parse_ip6hdr \<lparr>data = 0, frame = take 49 frame_v6_seq3\<rparr> \<lparr>pos = 14\<rparr> None =
     Some (- 1, \<lparr>pos = 14\<rparr>, None) \<and>
   xdp_parser_func \<lparr>data = 0, frame = take 49 frame_v6_seq3\<rparr> zero_stats =
     Some (xdp_stats_record_action zero_stats XDP_DROP)"
proof -
  have a: "xdp_parser_func \<lparr>data = 0, frame = frame_v6_seq3\<rparr> zero_stats =
      Some (xdp_stats_record_action zero_stats XDP_PASS)"
    by (simp add: run_defs frame_defs)
  have b: "length (take 49 frame_v6_seq3) = 49"
    by (simp add: frame_defs)
  have c: "parse_ip6hdr \<lparr>data = 0, frame = take 49 frame_v6_seq3\<rparr> \<lparr>pos = 14\<rparr> None =
      Some (- 1, \<lparr>pos = 14\<rparr>, None)"
    by (simp add: run_defs frame_defs)
  have d: "xdp_parser_func \<lparr>data = 0, frame = take 49 frame_v6_seq3\<rparr> zero_stats =
      Some (xdp_stats_record_action zero_stats XDP_DROP)"
    by (simp add: run_defs frame_defs)
  from a b c d show ?thesis by blast
qed

subsection \<open>The next header is not tested\<close>

text \<open>
  C5.  A frame whose innermost EtherType is IPv6, whose 40-byte IPv6 header fits and whose
  next header is not ICMPv6 (58) is meant to pass.  The classifier discards the value that
  \<^verbatim>\<open>parse_ip6hdr\<close> returns, although the parsers return the content type for the caller
  to test, as it tests the EtherType.  An IPv6 frame that carries a TCP segment (next
  header 6) with sequence number \<^verbatim>\<open>00001000\<close> is dropped: the ICMPv6 parser is run on the
  TCP header and the parity is that of the low half of the TCP sequence number.
\<close>

theorem ipv6_non_icmp_dropped:
  "parse_ethhdr \<lparr>data = 0, frame = frame_v6_tcp\<rparr> \<lparr>pos = 0\<rparr> None =
     Some (uint (bpf_htons ETH_P_IPV6), \<lparr>pos = 14\<rparr>, Some 0) \<and>
   14 + 40 \<le> data_end \<lparr>data = 0, frame = frame_v6_tcp\<rparr> \<and>
   parse_ip6hdr \<lparr>data = 0, frame = frame_v6_tcp\<rparr> \<lparr>pos = 14\<rparr> None = Some (6, \<lparr>pos = 54\<rparr>, Some 14) \<and>
   (6::int) \<noteq> 58 \<and>
   xdp_parser_func \<lparr>data = 0, frame = frame_v6_tcp\<rparr> zero_stats =
     Some (xdp_stats_record_action zero_stats XDP_DROP) \<and>
   xdp_parser_func \<lparr>data = 0, frame = frame_v6_tcp\<rparr> zero_stats \<noteq>
     Some (xdp_stats_record_action zero_stats XDP_PASS)"
proof -
  let ?c = "\<lparr>data = 0, frame = frame_v6_tcp\<rparr>"
  have a: "parse_ethhdr ?c \<lparr>pos = 0\<rparr> None = Some (uint (bpf_htons ETH_P_IPV6), \<lparr>pos = 14\<rparr>, Some 0)"
    by (simp add: run_defs frame_defs)
  have b: "14 + 40 \<le> data_end ?c"
    by (simp add: data_end_def frame_defs)
  have c: "parse_ip6hdr ?c \<lparr>pos = 14\<rparr> None = Some (6, \<lparr>pos = 54\<rparr>, Some 14)"
    by (simp add: run_defs frame_defs)
  have d: "xdp_parser_func ?c zero_stats = Some (xdp_stats_record_action zero_stats XDP_DROP)"
    by (simp add: run_defs frame_defs)
  have e: "xdp_stats_record_action zero_stats XDP_DROP \<noteq> xdp_stats_record_action zero_stats XDP_PASS"
    by (simp add: xdp_stats_record_action_def)
  from a b c d e show ?thesis by simp
qed

subsection \<open>IHL below 5\<close>

text \<open>
  Against C6 as it is stated: an IPv4 header with IHL 4 whose 20-byte fixed part fits is
  accepted.  \<^verbatim>\<open>parse_iphdr\<close> returns the protocol 1, not \<open>-1\<close>, and moves the cursor by
  16 bytes.
\<close>

theorem small_ihl_not_rejected:
  "14 + 20 \<le> data_end \<lparr>data = 0, frame = frame_v4_ihl4\<rparr> \<and>
   unat (frame \<lparr>data = 0, frame = frame_v4_ihl4\<rparr> ! 14 AND 0x0F) = 4 \<and>
   parse_iphdr \<lparr>data = 0, frame = frame_v4_ihl4\<rparr> \<lparr>pos = 14\<rparr> None = Some (1, \<lparr>pos = 30\<rparr>, Some 14) \<and>
   parse_iphdr \<lparr>data = 0, frame = frame_v4_ihl4\<rparr> \<lparr>pos = 14\<rparr> None \<noteq> Some (- 1, \<lparr>pos = 14\<rparr>, None)"
proof -
  let ?c = "\<lparr>data = 0, frame = frame_v4_ihl4\<rparr>"
  have a: "14 + 20 \<le> data_end ?c"
    by (simp add: data_end_def frame_defs)
  have b: "unat (frame ?c ! 14 AND 0x0F) = 4"
    by (simp add: frame_defs)
  have c: "parse_iphdr ?c \<lparr>pos = 14\<rparr> None = Some (1, \<lparr>pos = 30\<rparr>, Some 14)"
    by (simp add: run_defs frame_defs)
  from a b c show ?thesis by simp
qed

text \<open>
  C6, amended.  When the 20-byte fixed part of the IPv4 header fits and IHL is below 5,
  the second bounds check succeeds, since \<open>ihl * 4\<close> is less than the 20 bytes already
  checked: \<^verbatim>\<open>parse_iphdr\<close> returns the protocol field, never \<open>-1\<close>, sets the header
  pointer and moves the cursor by \<open>ihl * 4\<close> bytes.  No IHL below 5 is rejected.
\<close>

theorem parse_iphdr_small_ihl:
  assumes "data ctx \<le> pos nh" and "pos nh + 20 \<le> data_end ctx"
    and "unat (frame ctx ! (pos nh - data ctx) AND 0x0F) < 5"
  shows "parse_iphdr ctx nh h =
           Some (uint (frame ctx ! (pos nh + 9 - data ctx)),
                 nh\<lparr>pos := pos nh + unat (frame ctx ! (pos nh - data ctx) AND 0x0F) * 4\<rparr>,
                 Some (pos nh)) \<and>
         uint (frame ctx ! (pos nh + 9 - data ctx)) \<noteq> - 1"
  using assms by (simp add: parse_iphdr_eq uint_not_minus1)

text \<open>
  The amended statement at IHL 0: the parser succeeds and the cursor does not move.
\<close>

theorem parse_iphdr_small_ihl_witness:
  "data \<lparr>data = 0, frame = frame_v4_ihl0\<rparr> \<le> pos \<lparr>pos = 14\<rparr> \<and>
   pos \<lparr>pos = 14\<rparr> + 20 \<le> data_end \<lparr>data = 0, frame = frame_v4_ihl0\<rparr> \<and>
   unat (frame \<lparr>data = 0, frame = frame_v4_ihl0\<rparr> ! 14 AND 0x0F) < 5 \<and>
   parse_iphdr \<lparr>data = 0, frame = frame_v4_ihl0\<rparr> \<lparr>pos = 14\<rparr> None = Some (1, \<lparr>pos = 14\<rparr>, Some 14)"
proof -
  let ?c = "\<lparr>data = 0, frame = frame_v4_ihl0\<rparr>"
  have a: "data ?c \<le> pos \<lparr>pos = 14\<rparr>" by simp
  have b: "pos \<lparr>pos = 14\<rparr> + 20 \<le> data_end ?c"
    by (simp add: data_end_def frame_defs)
  have c: "unat (frame ?c ! (pos \<lparr>pos = 14\<rparr> - data ?c) AND 0x0F) < 5"
    by (simp add: frame_defs)
  have d: "unat (frame ?c ! 14 AND 0x0F) = 0" "frame ?c ! 23 = 1"
    by (simp_all add: frame_defs)
  from parse_iphdr_small_ihl [OF a b c, of None] d a b c show ?thesis by simp
qed

subsection \<open>The cursor invariant\<close>

text \<open>
  C7.  The cursor starts at \<^verbatim>\<open>data\<close>, inside the frame, and each of the five parsers,
  called with the cursor inside the frame, returns (with success or with \<open>-1\<close>) and leaves
  the cursor inside the frame: \<^verbatim>\<open>data \<le> pos \<le> data_end\<close>.
\<close>

theorem cursor_ok_after_parse:
  assumes "cursor_ok ctx nh"
  shows "cursor_ok ctx \<lparr>pos = data ctx\<rparr> \<and>
         (\<exists>r nh' h'. parse_ethhdr ctx nh h = Some (r, nh', h') \<and> cursor_ok ctx nh') \<and>
         (\<exists>r nh' h'. parse_ip6hdr ctx nh h = Some (r, nh', h') \<and> cursor_ok ctx nh') \<and>
         (\<exists>r nh' h'. parse_iphdr ctx nh h = Some (r, nh', h') \<and> cursor_ok ctx nh') \<and>
         (\<exists>r nh' h'. parse_icmp6hdr ctx nh h = Some (r, nh', h') \<and> cursor_ok ctx nh') \<and>
         (\<exists>r nh' h'. parse_icmphdr ctx nh h = Some (r, nh', h') \<and> cursor_ok ctx nh')"
proof -
  from assms have lo: "data ctx \<le> pos nh" by (simp add: cursor_ok_def)
  have eth: "\<exists>r nh' h'. parse_ethhdr ctx nh h = Some (r, nh', h') \<and> cursor_ok ctx nh'"
    by (rule parse_ethhdr_total [OF assms])
  have ip6: "\<exists>r nh' h'. parse_ip6hdr ctx nh h = Some (r, nh', h') \<and> cursor_ok ctx nh'"
    using assms by (simp add: parse_ip6hdr_eq [OF lo] cursor_ok_def)
  have ip: "\<exists>r nh' h'. parse_iphdr ctx nh h = Some (r, nh', h') \<and> cursor_ok ctx nh'"
    using assms by (simp add: parse_iphdr_eq [OF lo] cursor_ok_def)
  have icmp6: "\<exists>r nh' h'. parse_icmp6hdr ctx nh h = Some (r, nh', h') \<and> cursor_ok ctx nh'"
    using assms by (simp add: parse_icmp6hdr_eq [OF lo] cursor_ok_def)
  have icmp: "\<exists>r nh' h'. parse_icmphdr ctx nh h = Some (r, nh', h') \<and> cursor_ok ctx nh'"
    using assms by (simp add: parse_icmphdr_eq [OF lo] cursor_ok_def)
  have start: "cursor_ok ctx \<lparr>pos = data ctx\<rparr>"
    by (simp add: cursor_ok_def data_end_def)
  from start eth ip6 ip icmp6 icmp show ?thesis by blast
qed

text \<open>
  The invariant at the cursor behind the Ethernet header of an IPv4 echo request.
\<close>

theorem cursor_ok_after_parse_witness:
  "cursor_ok \<lparr>data = 0, frame = frame_v4_ihl6_seq2\<rparr> \<lparr>pos = 14\<rparr> \<and>
   cursor_ok \<lparr>data = 0, frame = frame_v4_ihl6_seq2\<rparr> \<lparr>pos = 0\<rparr> \<and>
   (\<exists>r nh' h'. parse_ethhdr \<lparr>data = 0, frame = frame_v4_ihl6_seq2\<rparr> \<lparr>pos = 14\<rparr> None = Some (r, nh', h') \<and>
      cursor_ok \<lparr>data = 0, frame = frame_v4_ihl6_seq2\<rparr> nh') \<and>
   (\<exists>r nh' h'. parse_ip6hdr \<lparr>data = 0, frame = frame_v4_ihl6_seq2\<rparr> \<lparr>pos = 14\<rparr> None = Some (r, nh', h') \<and>
      cursor_ok \<lparr>data = 0, frame = frame_v4_ihl6_seq2\<rparr> nh') \<and>
   (\<exists>r nh' h'. parse_iphdr \<lparr>data = 0, frame = frame_v4_ihl6_seq2\<rparr> \<lparr>pos = 14\<rparr> None = Some (r, nh', h') \<and>
      cursor_ok \<lparr>data = 0, frame = frame_v4_ihl6_seq2\<rparr> nh') \<and>
   (\<exists>r nh' h'. parse_icmp6hdr \<lparr>data = 0, frame = frame_v4_ihl6_seq2\<rparr> \<lparr>pos = 14\<rparr> None = Some (r, nh', h') \<and>
      cursor_ok \<lparr>data = 0, frame = frame_v4_ihl6_seq2\<rparr> nh') \<and>
   (\<exists>r nh' h'. parse_icmphdr \<lparr>data = 0, frame = frame_v4_ihl6_seq2\<rparr> \<lparr>pos = 14\<rparr> None = Some (r, nh', h') \<and>
      cursor_ok \<lparr>data = 0, frame = frame_v4_ihl6_seq2\<rparr> nh')"
proof -
  have ok: "cursor_ok \<lparr>data = 0, frame = frame_v4_ihl6_seq2\<rparr> \<lparr>pos = 14\<rparr>"
    by (simp add: cursor_ok_def data_end_def frame_defs)
  from ok cursor_ok_after_parse [OF ok, of None] show ?thesis by simp
qed

subsection \<open>Pass by default\<close>

text \<open>
  C8.  When the 14-byte Ethernet header does not fit, \<^verbatim>\<open>parse_ethhdr\<close> returns \<open>-1\<close> and
  the classifier returns \<^verbatim>\<open>XDP_PASS\<close>; and whenever the value returned by
  \<^verbatim>\<open>parse_ethhdr\<close> (the innermost EtherType in network byte order, or \<open>-1\<close>) is neither
  that of IPv4 nor that of IPv6, the classifier returns \<^verbatim>\<open>XDP_PASS\<close>.
\<close>

theorem no_l3_or_l2_failure_passes:
  "(length (frame ctx) < 14 \<longrightarrow>
      parse_ethhdr ctx \<lparr>pos = data ctx\<rparr> None = Some (- 1, \<lparr>pos = data ctx\<rparr>, None) \<and>
      xdp_parser_func ctx stats = Some (xdp_stats_record_action stats XDP_PASS)) \<and>
   (parse_ethhdr ctx \<lparr>pos = data ctx\<rparr> None = Some (t, nh1, e) \<and>
      t \<noteq> uint (bpf_htons ETH_P_IP) \<and> t \<noteq> uint (bpf_htons ETH_P_IPV6) \<longrightarrow>
      xdp_parser_func ctx stats = Some (xdp_stats_record_action stats XDP_PASS))"
proof -
  have a: "xdp_parser_func ctx stats = Some (xdp_stats_record_action stats XDP_PASS)"
    if "parse_ethhdr ctx \<lparr>pos = data ctx\<rparr> None = Some (t, nh1, e)"
      and "t \<noteq> uint (bpf_htons ETH_P_IP)" and "t \<noteq> uint (bpf_htons ETH_P_IPV6)" for t nh1 e
    by (rule xdp_parser_func_other [OF that(1) that(3) that(2)])
  have neg: "- 1 \<noteq> uint (bpf_htons ETH_P_IP)" "- 1 \<noteq> uint (bpf_htons ETH_P_IPV6)"
    by (simp_all add: htons_values)
  have b: "parse_ethhdr ctx \<lparr>pos = data ctx\<rparr> None = Some (- 1, \<lparr>pos = data ctx\<rparr>, None)"
    if "length (frame ctx) < 14"
    using that by (simp add: parse_ethhdr_short data_end_def)
  from a [OF b neg] a b show ?thesis by blast
qed

text \<open>
  Both cases: a runt of ten bytes, and an ARP request.
\<close>

theorem no_l3_or_l2_failure_passes_witness:
  "length (frame \<lparr>data = 0, frame = frame_runt\<rparr>) < 14 \<and>
   xdp_parser_func \<lparr>data = 0, frame = frame_runt\<rparr> zero_stats =
     Some (xdp_stats_record_action zero_stats XDP_PASS) \<and>
   parse_ethhdr \<lparr>data = 0, frame = frame_arp\<rparr> \<lparr>pos = 0\<rparr> None =
     Some (0x0608, \<lparr>pos = 14\<rparr>, Some 0) \<and>
   xdp_parser_func \<lparr>data = 0, frame = frame_arp\<rparr> zero_stats =
     Some (xdp_stats_record_action zero_stats XDP_PASS)"
proof -
  have runt: "length (frame \<lparr>data = 0, frame = frame_runt\<rparr>) < 14"
    by (simp add: frame_runt_def)
  have arp: "parse_ethhdr \<lparr>data = 0, frame = frame_arp\<rparr> \<lparr>pos = data \<lparr>data = 0, frame = frame_arp\<rparr>\<rparr> None =
      Some (0x0608, \<lparr>pos = 14\<rparr>, Some 0)"
    by (simp add: run_defs frame_defs)
  have ne: "(0x0608::int) \<noteq> uint (bpf_htons ETH_P_IP)" "(0x0608::int) \<noteq> uint (bpf_htons ETH_P_IPV6)"
    by (simp_all add: htons_values)
  from no_l3_or_l2_failure_passes [of "\<lparr>data = 0, frame = frame_runt\<rparr>" zero_stats "- 1" "\<lparr>pos = 0\<rparr>" None]
    no_l3_or_l2_failure_passes [of "\<lparr>data = 0, frame = frame_arp\<rparr>" zero_stats "0x0608" "\<lparr>pos = 14\<rparr>" "Some 0"]
    runt arp ne
  show ?thesis by simp
qed

subsection \<open>Parity alone decides\<close>

text \<open>
  C9.  When the innermost EtherType is IPv4 or IPv6 and 8 bytes fit at the cursor that the
  IP parser leaves (whatever it returned: a protocol, a next header, or \<open>-1\<close>), the action
  is \<^verbatim>\<open>XDP_DROP\<close> if the big-endian 16-bit field at bytes 6 and 7 of these 8 bytes is even
  and \<^verbatim>\<open>XDP_PASS\<close> if it is odd.  Neither the protocol nor the ICMP type enters.
\<close>

theorem parity_decides_without_type_test:
  assumes "parse_ethhdr ctx \<lparr>pos = data ctx\<rparr> None = Some (t, nh1, e)"
  shows "(t = uint (bpf_htons ETH_P_IPV6) \<and> parse_ip6hdr ctx nh1 None = Some (r, nh2, h) \<and>
            pos nh2 + 8 \<le> data_end ctx \<longrightarrow>
          xdp_parser_func ctx stats =
            Some (xdp_stats_record_action stats
                   (if even (be16 (frame ctx) (pos nh2 + 6 - data ctx)) then XDP_DROP else XDP_PASS))) \<and>
         (t = uint (bpf_htons ETH_P_IP) \<and> parse_iphdr ctx nh1 None = Some (r, nh2, h) \<and>
            pos nh2 + 8 \<le> data_end ctx \<longrightarrow>
          xdp_parser_func ctx stats =
            Some (xdp_stats_record_action stats
                   (if even (be16 (frame ctx) (pos nh2 + 6 - data ctx)) then XDP_DROP else XDP_PASS)))"
proof -
  have "cursor_ok ctx \<lparr>pos = data ctx\<rparr>" by (simp add: cursor_ok_def data_end_def)
  from parse_ethhdr_cursor_ok [OF assms this] have lo: "data ctx \<le> pos nh1"
    by (simp add: cursor_ok_def)
  have v6: "xdp_parser_func ctx stats =
      Some (xdp_stats_record_action stats
             (if even (be16 (frame ctx) (pos nh2 + 6 - data ctx)) then XDP_DROP else XDP_PASS))"
    if "t = uint (bpf_htons ETH_P_IPV6)" "parse_ip6hdr ctx nh1 None = Some (r, nh2, h)"
      "pos nh2 + 8 \<le> data_end ctx"
    using xdp_parser_func_ipv6 [OF assms [unfolded that(1)] lo that(2), of stats] that(3) by simp
  have v4: "xdp_parser_func ctx stats =
      Some (xdp_stats_record_action stats
             (if even (be16 (frame ctx) (pos nh2 + 6 - data ctx)) then XDP_DROP else XDP_PASS))"
    if "t = uint (bpf_htons ETH_P_IP)" "parse_iphdr ctx nh1 None = Some (r, nh2, h)"
      "pos nh2 + 8 \<le> data_end ctx"
    using xdp_parser_func_ipv4 [OF assms [unfolded that(1)] lo that(2), of stats] that(3) by simp
  from v6 v4 show ?thesis by blast
qed

text \<open>
  A TCP segment over IPv4 and a UDP datagram over IPv6 are dropped.
\<close>

theorem parity_decides_without_type_test_witness:
  "parse_ethhdr \<lparr>data = 0, frame = frame_v4_tcp\<rparr> \<lparr>pos = 0\<rparr> None =
     Some (uint (bpf_htons ETH_P_IP), \<lparr>pos = 14\<rparr>, Some 0) \<and>
   parse_iphdr \<lparr>data = 0, frame = frame_v4_tcp\<rparr> \<lparr>pos = 14\<rparr> None = Some (6, \<lparr>pos = 34\<rparr>, Some 14) \<and>
   xdp_parser_func \<lparr>data = 0, frame = frame_v4_tcp\<rparr> zero_stats =
     Some (xdp_stats_record_action zero_stats XDP_DROP) \<and>
   parse_ethhdr \<lparr>data = 0, frame = frame_v6_udp\<rparr> \<lparr>pos = 0\<rparr> None =
     Some (uint (bpf_htons ETH_P_IPV6), \<lparr>pos = 14\<rparr>, Some 0) \<and>
   parse_ip6hdr \<lparr>data = 0, frame = frame_v6_udp\<rparr> \<lparr>pos = 14\<rparr> None = Some (17, \<lparr>pos = 54\<rparr>, Some 14) \<and>
   xdp_parser_func \<lparr>data = 0, frame = frame_v6_udp\<rparr> zero_stats =
     Some (xdp_stats_record_action zero_stats XDP_DROP)"
proof -
  let ?c4 = "\<lparr>data = 0, frame = frame_v4_tcp\<rparr>" and ?c6 = "\<lparr>data = 0, frame = frame_v6_udp\<rparr>"
  have e4: "parse_ethhdr ?c4 \<lparr>pos = data ?c4\<rparr> None = Some (uint (bpf_htons ETH_P_IP), \<lparr>pos = 14\<rparr>, Some 0)"
    by (simp add: run_defs frame_defs)
  have i4: "parse_iphdr ?c4 \<lparr>pos = 14\<rparr> None = Some (6, \<lparr>pos = 34\<rparr>, Some 14)"
    by (simp add: run_defs frame_defs)
  have f4: "pos \<lparr>pos = 34\<rparr> + 8 \<le> data_end ?c4"
    by (simp add: data_end_def frame_defs)
  have p4: "even (be16 (frame ?c4) (pos \<lparr>pos = 34\<rparr> + 6 - data ?c4))"
    by (simp add: be16_def frame_defs)
  have e6: "parse_ethhdr ?c6 \<lparr>pos = data ?c6\<rparr> None = Some (uint (bpf_htons ETH_P_IPV6), \<lparr>pos = 14\<rparr>, Some 0)"
    by (simp add: run_defs frame_defs)
  have i6: "parse_ip6hdr ?c6 \<lparr>pos = 14\<rparr> None = Some (17, \<lparr>pos = 54\<rparr>, Some 14)"
    by (simp add: run_defs frame_defs)
  have f6: "pos \<lparr>pos = 54\<rparr> + 8 \<le> data_end ?c6"
    by (simp add: data_end_def frame_defs)
  have p6: "even (be16 (frame ?c6) (pos \<lparr>pos = 54\<rparr> + 6 - data ?c6))"
    by (simp add: be16_def frame_defs)
  from parity_decides_without_type_test [OF e4, of 6 "\<lparr>pos = 34\<rparr>" "Some 14" zero_stats] i4 f4 p4
  have r4: "xdp_parser_func ?c4 zero_stats = Some (xdp_stats_record_action zero_stats XDP_DROP)"
    by simp
  from parity_decides_without_type_test [OF e6, of 17 "\<lparr>pos = 54\<rparr>" "Some 14" zero_stats] i6 f6 p6
  have r6: "xdp_parser_func ?c6 zero_stats = Some (xdp_stats_record_action zero_stats XDP_DROP)"
    by simp
  from e4 i4 r4 e6 i6 r6 show ?thesis by simp
qed

subsection \<open>Failure leaves no trace\<close>

text \<open>
  C10.  Whenever one of the five parsers returns \<open>-1\<close>, the cursor is where it was on
  entry and the caller's header pointer has the value it had.
\<close>

theorem parsers_atomic_on_failure:
  "(parse_ethhdr ctx nh h = Some (- 1, nh', h') \<longrightarrow> nh' = nh \<and> h' = h) \<and>
   (parse_ip6hdr ctx nh h = Some (- 1, nh', h') \<longrightarrow> nh' = nh \<and> h' = h) \<and>
   (parse_iphdr ctx nh h = Some (- 1, nh', h') \<longrightarrow> nh' = nh \<and> h' = h) \<and>
   (parse_icmp6hdr ctx nh h = Some (- 1, nh', h') \<longrightarrow> nh' = nh \<and> h' = h) \<and>
   (parse_icmphdr ctx nh h = Some (- 1, nh', h') \<longrightarrow> nh' = nh \<and> h' = h)"
proof -
  have eth: "parse_ethhdr ctx nh h = Some (- 1, nh', h') \<longrightarrow> nh' = nh \<and> h' = h"
    using parse_ethhdr_minus1 [of ctx nh h nh' h'] by blast
  have ip6: "parse_ip6hdr ctx nh h = Some (- 1, nh', h') \<longrightarrow> nh' = nh \<and> h' = h"
    by (auto simp add: parse_ip6hdr_def Let_def uint_not_minus1 split: if_splits bind_splits)
  have ip: "parse_iphdr ctx nh h = Some (- 1, nh', h') \<longrightarrow> nh' = nh \<and> h' = h"
    by (auto simp add: parse_iphdr_def Let_def uint_not_minus1 split: if_splits bind_splits)
  have icmp6: "parse_icmp6hdr ctx nh h = Some (- 1, nh', h') \<longrightarrow> nh' = nh \<and> h' = h"
    by (auto simp add: parse_icmp6hdr_def Let_def uint_not_minus1 split: if_splits bind_splits)
  have icmp: "parse_icmphdr ctx nh h = Some (- 1, nh', h') \<longrightarrow> nh' = nh \<and> h' = h"
    by (auto simp add: parse_icmphdr_def Let_def uint_not_minus1 split: if_splits bind_splits)
  from eth ip6 ip icmp6 icmp show ?thesis by blast
qed

text \<open>
  All five parsers fail on a runt of ten bytes and leave cursor and header pointer alone.
\<close>

theorem parsers_atomic_on_failure_witness:
  "parse_ethhdr \<lparr>data = 0, frame = frame_runt\<rparr> \<lparr>pos = 0\<rparr> None = Some (- 1, \<lparr>pos = 0\<rparr>, None) \<and>
   parse_ip6hdr \<lparr>data = 0, frame = frame_runt\<rparr> \<lparr>pos = 0\<rparr> None = Some (- 1, \<lparr>pos = 0\<rparr>, None) \<and>
   parse_iphdr \<lparr>data = 0, frame = frame_runt\<rparr> \<lparr>pos = 0\<rparr> None = Some (- 1, \<lparr>pos = 0\<rparr>, None) \<and>
   parse_icmp6hdr \<lparr>data = 0, frame = frame_runt\<rparr> \<lparr>pos = 4\<rparr> (Some 0) = Some (- 1, \<lparr>pos = 4\<rparr>, Some 0) \<and>
   parse_icmphdr \<lparr>data = 0, frame = frame_runt\<rparr> \<lparr>pos = 4\<rparr> (Some 0) = Some (- 1, \<lparr>pos = 4\<rparr>, Some 0)"
proof -
  let ?c = "\<lparr>data = 0, frame = frame_runt\<rparr>"
  have fails:
    "\<exists>nh' h'. parse_ethhdr ?c \<lparr>pos = 0\<rparr> None = Some (- 1, nh', h')"
    "\<exists>nh' h'. parse_ip6hdr ?c \<lparr>pos = 0\<rparr> None = Some (- 1, nh', h')"
    "\<exists>nh' h'. parse_iphdr ?c \<lparr>pos = 0\<rparr> None = Some (- 1, nh', h')"
    "\<exists>nh' h'. parse_icmp6hdr ?c \<lparr>pos = 4\<rparr> (Some 0) = Some (- 1, nh', h')"
    "\<exists>nh' h'. parse_icmphdr ?c \<lparr>pos = 4\<rparr> (Some 0) = Some (- 1, nh', h')"
    by (simp_all add: run_defs frame_defs)
  from fails
    parsers_atomic_on_failure [of ?c "\<lparr>pos = 0\<rparr>" None]
    parsers_atomic_on_failure [of ?c "\<lparr>pos = 4\<rparr>" "Some 0"]
  show ?thesis by blast
qed

end
